theory Spec2Isabelle
  imports Main "HOL-Library.Word" "HOL-Library.Sublist" "HOL-Library.Log_Nat"
begin

unbundle bit_operations_syntax

section \<open>Go strings and the \<open>strings\<close> package\<close>

text \<open>
  A Go string is a sequence of bytes, so it is modelled by \<^typ>\<open>string\<close>. The Unicode
  minus sign U+2212 of \<open>parseOdds\<close> is the three bytes E2 88 92 of its UTF-8 encoding.
\<close>

definition minusU :: string where
  "minusU = [CHR 0xE2, CHR 0x88, CHR 0x92]"

text \<open>
  \<open>strings.TrimSpace\<close> removes the leading and the trailing runes for which
  \<open>unicode.IsSpace\<close> holds: the six ASCII space bytes, and the code points U+0085,
  U+00A0, U+1680, U+2000 to U+200A, U+2028, U+2029, U+202F, U+205F and U+3000.
  \<open>spaceSeqs\<close> lists their UTF-8 encodings.
\<close>

definition spaceSeqs :: "string list" where
  "spaceSeqs =
    [[CHR 0x09], [CHR 0x0A], [CHR 0x0B], [CHR 0x0C], [CHR 0x0D], [CHR 0x20],
     [CHR 0xC2, CHR 0x85], [CHR 0xC2, CHR 0xA0],
     [CHR 0xE1, CHR 0x9A, CHR 0x80],
     [CHR 0xE2, CHR 0x80, CHR 0x80], [CHR 0xE2, CHR 0x80, CHR 0x81],
     [CHR 0xE2, CHR 0x80, CHR 0x82], [CHR 0xE2, CHR 0x80, CHR 0x83],
     [CHR 0xE2, CHR 0x80, CHR 0x84], [CHR 0xE2, CHR 0x80, CHR 0x85],
     [CHR 0xE2, CHR 0x80, CHR 0x86], [CHR 0xE2, CHR 0x80, CHR 0x87],
     [CHR 0xE2, CHR 0x80, CHR 0x88], [CHR 0xE2, CHR 0x80, CHR 0x89],
     [CHR 0xE2, CHR 0x80, CHR 0x8A],
     [CHR 0xE2, CHR 0x80, CHR 0xA8], [CHR 0xE2, CHR 0x80, CHR 0xA9],
     [CHR 0xE2, CHR 0x80, CHR 0xAF],
     [CHR 0xE2, CHR 0x81, CHR 0x9F],
     [CHR 0xE3, CHR 0x80, CHR 0x80]]"

text \<open>
  \<open>stripSeqs qs s\<close> removes, as long as one of the byte sequences \<open>qs\<close> starts \<open>s\<close>,
  that sequence: the loop of \<open>TrimLeftFunc\<close>, which decodes one rune and drops it
  while it is a space.
\<close>

function stripSeqs :: "string list \<Rightarrow> string \<Rightarrow> string" where
  "stripSeqs qs s =
     (case find (\<lambda>q. q \<noteq> [] \<and> prefix q s) qs of
        None \<Rightarrow> s
      | Some q \<Rightarrow> stripSeqs qs (drop (length q) s))"
  by pat_completeness auto
termination
proof (relation "measure (\<lambda>(qs, s). length s)")
  show "wf (measure (\<lambda>(qs, s). length s))" by simp
next
  fix qs :: "string list" and s q :: string
  assume "find (\<lambda>q. q \<noteq> [] \<and> prefix q s) qs = Some q"
  then have "q \<noteq> []" and "prefix q s"
    by (auto simp: find_Some_iff)
  then have "s \<noteq> []" by auto
  with \<open>q \<noteq> []\<close> show "((qs, drop (length q) s), (qs, s)) \<in> measure (\<lambda>(qs, s). length s)"
    by simp
qed

declare stripSeqs.simps [simp del]

definition TrimLeftSpace :: "string \<Rightarrow> string" where
  "TrimLeftSpace s = stripSeqs spaceSeqs s"

definition TrimRightSpace :: "string \<Rightarrow> string" where
  "TrimRightSpace s = rev (stripSeqs (map rev spaceSeqs) (rev s))"

definition TrimSpace :: "string \<Rightarrow> string" where
  "TrimSpace s = TrimRightSpace (TrimLeftSpace s)"

definition HasPrefix :: "string \<Rightarrow> string \<Rightarrow> bool" where
  "HasPrefix s p = prefix p s"

definition TrimPrefix :: "string \<Rightarrow> string \<Rightarrow> string" where
  "TrimPrefix s p = (if HasPrefix s p then drop (length p) s else s)"

section \<open>float64 and \<open>strconv.ParseFloat\<close>\<close>

text \<open>
  A float64 is its IEEE 754 bit pattern. The literal \<open>0.0\<close> is the word 0, Go's unary
  minus flips the sign bit, and \<open>x != 0\<close> is false exactly for the two zeros (a NaN
  differs from 0).
\<close>

type_synonym float64 = "64 word"

definition fneg :: "float64 \<Rightarrow> float64" where
  "fneg x = x XOR 0x8000000000000000"

definition fne0 :: "float64 \<Rightarrow> bool" where
  "fne0 x = (x AND 0x7FFFFFFFFFFFFFFF \<noteq> 0)"

text \<open>
  The float64 of a natural number below \<open>2 ^ 53\<close>, which is represented exactly:
  biased exponent \<open>1023 + k\<close> for the highest set bit \<open>k\<close>, and the bits below it
  shifted to the top of the 52-bit fraction (the mask drops the leading bit).
\<close>

definition float64_of_nat :: "nat \<Rightarrow> float64" where
  "float64_of_nat n =
     (if n = 0 then 0
      else let k = floorlog 2 n - 1
           in push_bit 52 (word_of_nat (1023 + k)) OR
              (push_bit (52 - k) (word_of_nat n) AND 0xFFFFFFFFFFFFF))"

definition float64_of_int :: "int \<Rightarrow> float64" where
  "float64_of_int i = (if i < 0 then fneg (float64_of_nat (nat (- i))) else float64_of_nat (nat i))"

datatype NumError = ErrSyntax | ErrRange

text \<open>
  \<open>strconv.ParseFloat\<close> belongs to Go's library and is a parameter of \<open>parseOdds\<close>.
  For evaluation, \<open>ParseFloat rest\<close> fixes the library on two fragments of its input and
  leaves everything else to \<open>rest\<close>:
  \<^item> an optional sign and one to fifteen decimal digits is that integer, exactly;
  \<^item> a text that, after an optional sign, is empty or starts with a byte other than a
    digit, \<open>.\<close>, \<open>_\<close>, \<open>i\<close>, \<open>I\<close>, \<open>n\<close>, \<open>N\<close> is a syntax error.
\<close>

definition isDigit :: "char \<Rightarrow> bool" where
  "isDigit c = (48 \<le> (of_char c :: nat) \<and> (of_char c :: nat) \<le> 57)"

definition digitsValue :: "string \<Rightarrow> nat" where
  "digitsValue ds = foldl (\<lambda>n c. 10 * n + (of_char c - 48)) 0 ds"

definition unsignedPart :: "string \<Rightarrow> bool \<times> string" where
  "unsignedPart s =
     (case s of
        c # cs \<Rightarrow> if c = CHR ''-'' then (True, cs) else if c = CHR ''+'' then (False, cs) else (False, s)
      | [] \<Rightarrow> (False, s))"

definition ParseFloat :: "(string \<Rightarrow> NumError + float64) \<Rightarrow> string \<Rightarrow> NumError + float64" where
  "ParseFloat rest s =
     (let (neg, t) = unsignedPart s
      in if t \<noteq> [] \<and> length t \<le> 15 \<and> list_all isDigit t
         then Inr (if neg then fneg (float64_of_nat (digitsValue t)) else float64_of_nat (digitsValue t))
         else if t = [] \<or> \<not> (isDigit (hd t) \<or> hd t \<in> set ''._iInN'')
         then Inl ErrSyntax
         else rest s)"

text \<open>
  The examples stay inside the two fragments; for them the rest of the library is fixed
  to a syntax error.
\<close>

definition sampleParseFloat :: "string \<Rightarrow> NumError + float64" where
  "sampleParseFloat = ParseFloat (\<lambda>s. Inl ErrSyntax)"

section \<open>parseOdds\<close>

definition parseOdds :: "(string \<Rightarrow> NumError + float64) \<Rightarrow> string \<Rightarrow> float64" where
  "parseOdds parseFloat oddsStr0 =
     (let oddsStr = TrimSpace oddsStr0
      in if oddsStr = '''' then 0
         else
           let isMinus = (HasPrefix oddsStr ''-'' \<or> HasPrefix oddsStr minusU);
               oddsStr = TrimPrefix oddsStr ''+'';
               oddsStr = TrimPrefix oddsStr ''-'';
               oddsStr = TrimPrefix oddsStr minusU
           in case parseFloat oddsStr of
                Inl err \<Rightarrow> 0
              | Inr val \<Rightarrow> if isMinus then fneg val else val)"

text \<open>
  The text handed to the number parser: the three \<open>TrimPrefix\<close> calls of \<open>parseOdds\<close>
  in their order.
\<close>

definition strippedText :: "string \<Rightarrow> string" where
  "strippedText oddsStr = TrimPrefix (TrimPrefix (TrimPrefix oddsStr ''+'') ''-'') minusU"

subsection \<open>The specification's sign handling\<close>

text \<open>
  The specification words the sign handling as two separable steps: exactly one of the
  three recognised prefixes is trimmed, whichever is present, and the parsed magnitude is
  negated when that prefix marks negativity. \<open>oneSign\<close> is that reading (the flag, and
  the text left), and \<open>parseOdds_spec\<close> is \<open>parseOdds\<close> with it.
\<close>

definition oneSign :: "string \<Rightarrow> bool \<times> string" where
  "oneSign s =
     (if HasPrefix s ''+'' then (False, drop 1 s)
      else if HasPrefix s ''-'' then (True, drop 1 s)
      else if HasPrefix s minusU then (True, drop (length minusU) s)
      else (False, s))"

definition parseOdds_spec :: "(string \<Rightarrow> NumError + float64) \<Rightarrow> string \<Rightarrow> float64" where
  "parseOdds_spec parseFloat oddsStr0 =
     (let oddsStr = TrimSpace oddsStr0
      in if oddsStr = '''' then 0
         else case oneSign oddsStr of (negative, magnitude) \<Rightarrow>
           (case parseFloat magnitude of
              Inl err \<Rightarrow> 0
            | Inr val \<Rightarrow> if negative then fneg val else val))"

text \<open>
  A text with two sign markers that \<open>parseOdds\<close> strips both: a \<open>+\<close> followed by either
  minus, or the ASCII minus followed by the Unicode one.
\<close>

definition doubleSign :: "string \<Rightarrow> bool" where
  "doubleSign s =
     (HasPrefix s ''+-'' \<or> HasPrefix s (''+'' @ minusU) \<or> HasPrefix s (''-'' @ minusU))"

text \<open>A text of whitespace only: a sequence of space runes.\<close>

inductive whitespace :: "string \<Rightarrow> bool" where
  empty: "whitespace []"
| space: "q \<in> set spaceSeqs \<Longrightarrow> whitespace s \<Longrightarrow> whitespace (q @ s)"

section \<open>The markup-query capability\<close>

text \<open>
  The goquery library is not part of the program: \<open>parseMarkets\<close> takes it as a record
  of the three operations it calls. A selection is the list of its nodes in document
  order; \<open>NewDocumentFromReader\<close> gives the document's selection or the error's text;
  \<open>Each\<close> visits the nodes of a selection with their indices, each as a selection of
  one node.
\<close>

record 'n goquery =
  NewDocumentFromReader :: "string \<Rightarrow> string + 'n list"
  Find :: "'n list \<Rightarrow> string \<Rightarrow> 'n list"
  Text :: "'n list \<Rightarrow> string"

definition Each :: "'n list \<Rightarrow> (nat \<times> 'n list) list" where
  "Each sel = enumerate 0 (map (\<lambda>n. [n]) sel)"

section \<open>Markets\<close>

record Market =
  Game :: string
  Side :: string
  Odds :: float64
  Line :: float64
  BetType :: string

definition betTypes :: "string list" where
  "betTypes = [''Spread'', ''Total'', ''Moneyline'']"

text \<open>The callback that reads the team names: the labels at the indices 0 and 1.\<close>

definition teamLabel ::
  "'n goquery \<Rightarrow> nat \<times> 'n list \<Rightarrow> string \<times> string \<Rightarrow> string \<times> string" where
  "teamLabel q jt teams =
     (case jt of (j, teamSel) \<Rightarrow>
        case teams of (teamA, teamB) \<Rightarrow>
          if j = 0 then (TrimSpace (Text q teamSel), teamB)
          else if j = 1 then (teamA, TrimSpace (Text q teamSel))
          else (teamA, teamB))"

definition teamNames :: "'n goquery \<Rightarrow> 'n list \<Rightarrow> string \<times> string" where
  "teamNames q gameWrapper =
     fold (teamLabel q) (Each (Find q gameWrapper ''.cb-market__label-inner'')) ('''', '''')"

text \<open>
  The callback of the buttons builds the market of the button at index \<open>j\<close>; the
  wrapper's callback appends it to \<open>markets\<close>.
\<close>

definition buttonMarket ::
  "'n goquery \<Rightarrow> (string \<Rightarrow> NumError + float64) \<Rightarrow> string \<Rightarrow> nat \<times> 'n list \<Rightarrow> Market" where
  "buttonMarket q parseFloat gameDescription jb =
     (case jb of (j, button) \<Rightarrow>
        let lineText = Text q (Find q button ''.cb-market__button-points'');
            oddsText = Text q (Find q button ''.cb-market__button-odds'');
            betType = betTypes ! (j mod 3);
            line = parseOdds parseFloat lineText;
            odds = parseOdds parseFloat oddsText;
            side = (if j \<ge> 3 then ''under'' else ''over'')
        in \<lparr>Game = gameDescription, Side = side, Odds = odds, Line = line, BetType = betType\<rparr>)"

text \<open>The callback of the game wrappers; \<open>markets\<close> is the slice it appends to.\<close>

definition gameWrapperMarkets ::
  "'n goquery \<Rightarrow> (string \<Rightarrow> NumError + float64) \<Rightarrow> 'n list \<Rightarrow> Market list \<Rightarrow> Market list" where
  "gameWrapperMarkets q parseFloat gameWrapper markets =
     (case teamNames q gameWrapper of (teamA, teamB) \<Rightarrow>
        if teamA = '''' \<or> teamB = '''' then markets
        else
          let gameDescription = teamA @ '' vs '' @ teamB
          in fold (\<lambda>jb markets. markets @ [buttonMarket q parseFloat gameDescription jb])
               (Each (Find q gameWrapper ''.cb-market__button'')) markets)"

text \<open>
  \<open>parseMarkets\<close> writes to the log when the document cannot be read, so the log is
  passed in and returned. A nil slice is the empty list.
\<close>

definition parseMarkets ::
  "'n goquery \<Rightarrow> (string \<Rightarrow> NumError + float64) \<Rightarrow> string \<Rightarrow> string list \<Rightarrow>
     Market list \<times> string list" where
  "parseMarkets q parseFloat html logged =
     (case NewDocumentFromReader q html of
        Inl err \<Rightarrow> ([], logged @ [''Error parsing HTML: '' @ err])
      | Inr doc \<Rightarrow>
          (fold (\<lambda>(i, gameWrapper). gameWrapperMarkets q parseFloat gameWrapper)
             (Each (Find q doc ''.cb-market__template'')) [],
           logged))"

section \<open>printMarkets\<close>

text \<open>
  The report is the list of the print statements executed, each with its arguments:
  \<open>LogPrintln\<close> for \<open>log.Println\<close>, \<open>FoundMarkets\<close> for the count line, \<open>GameLine\<close> and
  \<open>Rule\<close> for a game's name and the dashes under it, \<open>MarketLine\<close> and \<open>MarketNoLine\<close>
  for the two formats of a market (bet type, side, line, odds), \<open>EmptyLine\<close> for the
  line after a game.
\<close>

datatype printed =
    LogPrintln string
  | FoundMarkets nat
  | GameLine string
  | Rule nat
  | MarketLine string string float64 float64
  | MarketNoLine string string float64
  | EmptyLine

text \<open>The statement \<open>gameMap[m.Game] = append(gameMap[m.Game], m)\<close> of the grouping loop.\<close>

definition addMarket :: "Market \<Rightarrow> (string \<rightharpoonup> Market list) \<Rightarrow> (string \<rightharpoonup> Market list)" where
  "addMarket m gameMap =
     gameMap(Game m \<mapsto> (case gameMap (Game m) of None \<Rightarrow> [] | Some ms \<Rightarrow> ms) @ [m])"

definition groupByGame :: "Market list \<Rightarrow> (string \<rightharpoonup> Market list)" where
  "groupByGame markets = fold addMarket markets Map.empty"

definition marketRow :: "Market \<Rightarrow> printed" where
  "marketRow m =
     (if fne0 (Line m) then MarketLine (BetType m) (Side m) (Line m) (Odds m)
      else MarketNoLine (BetType m) (Side m) (Odds m))"

text \<open>
  Go visits the keys of a map in an order it does not specify: \<open>keys\<close> is the order of
  one run, every key of the map once.
\<close>

definition printMarkets :: "string list \<Rightarrow> Market list \<Rightarrow> printed list" where
  "printMarkets keys markets =
     (if length markets = 0 then [LogPrintln ''No markets found'']
      else
        let gameMap = groupByGame markets
        in FoundMarkets (length markets) #
           concat (map (\<lambda>game.
             case gameMap game of
               None \<Rightarrow> []
             | Some gameMarkets \<Rightarrow>
                 [GameLine game, Rule (length game)] @ map marketRow gameMarkets @ [EmptyLine])
             keys))"

section \<open>A document tree for the examples\<close>

text \<open>
  A small instance of the capability, on which the examples are evaluated: elements with
  their classes and children, text nodes, selection by a class selector over the
  descendants in document order, and a table of the pages that can be read.
\<close>

datatype node = TextNode string | Element "string list" "node list"

fun subnodes :: "node \<Rightarrow> node list" where
  "subnodes (TextNode t) = []"
| "subnodes (Element cs ns) = concat (map (\<lambda>n. n # subnodes n) ns)"

fun nodeText :: "node \<Rightarrow> string" where
  "nodeText (TextNode t) = t"
| "nodeText (Element cs ns) = concat (map nodeText ns)"

fun hasClass :: "string \<Rightarrow> node \<Rightarrow> bool" where
  "hasClass sel (TextNode t) = False"
| "hasClass sel (Element cs ns) = (sel \<in> set (map (\<lambda>c. CHR ''.'' # c) cs))"

definition treeQuery :: "(string \<Rightarrow> node option) \<Rightarrow> node goquery" where
  "treeQuery pages =
     \<lparr>NewDocumentFromReader =
        (\<lambda>html. case pages html of None \<Rightarrow> Inl ''unreadable'' | Some d \<Rightarrow> Inr [d]),
      Find = (\<lambda>sel s. concat (map (\<lambda>n. filter (hasClass s) (subnodes n)) sel)),
      Text = (\<lambda>sel. concat (map nodeText sel))\<rparr>"

definition label :: "string \<Rightarrow> node" where
  "label t = Element [''cb-market__label-inner''] [TextNode t]"

definition button :: "string \<Rightarrow> string \<Rightarrow> node" where
  "button points odds =
     Element [''cb-market__button'']
       [Element [''cb-market__button-points''] [TextNode points],
        Element [''cb-market__button-odds''] [TextNode odds]]"

definition template :: "node list \<Rightarrow> node" where
  "template ns = Element [''cb-market__template''] ns"

definition sixButtons :: "node list" where
  "sixButtons =
     [button ''-3'' (minusU @ ''110''), button ''45'' ''-110'', button '''' ''+150'',
      button ''+3'' ''-110'', button ''45'' ''-105'', button '''' (minusU @ ''180'')]"

definition sampleGame :: node where
  "sampleGame = template ([label '' Jets '', label ''Bills''] @ sixButtons)"

definition sampleThreeLabels :: node where
  "sampleThreeLabels = template ([label '' Jets '', label ''Bills'', label ''Dolphins''] @ sixButtons)"

definition sampleOneLabel :: node where
  "sampleOneLabel = template ([label ''Jets''] @ sixButtons)"

definition sampleBlankLabel :: node where
  "sampleBlankLabel = template ([label ''Jets'', label ''  '', label ''Bills''] @ sixButtons)"

definition samplePages :: "string \<Rightarrow> node option" where
  "samplePages html =
     (if html = ''game'' then Some (Element [] [sampleGame])
      else if html = ''nolabel'' then Some (Element [] [sampleOneLabel])
      else if html = ''blank'' then Some (Element [] [sampleBlankLabel])
      else if html = ''nogames'' then Some (Element [] [label ''Jets''])
      else None)"

definition sampleQuery :: "node goquery" where
  "sampleQuery = treeQuery samplePages"

definition sampleMarkets :: "Market list" where
  "sampleMarkets =
     [\<lparr>Game = ''Jets vs Bills'', Side = ''over'', Odds = float64_of_int (- 110),
       Line = float64_of_int 45, BetType = ''Total''\<rparr>,
      \<lparr>Game = ''Rams vs Lions'', Side = ''over'', Odds = float64_of_int 150,
       Line = 0, BetType = ''Moneyline''\<rparr>,
      \<lparr>Game = ''Jets vs Bills'', Side = ''under'', Odds = float64_of_int (- 105),
       Line = fneg 0, BetType = ''Moneyline''\<rparr>]"

section \<open>Properties of parseOdds\<close>

lemma parseOdds_unfold:
  "parseOdds pf s =
     (if TrimSpace s = [] then 0
      else case pf (strippedText (TrimSpace s)) of
             Inl err \<Rightarrow> 0
           | Inr val \<Rightarrow>
               if HasPrefix (TrimSpace s) ''-'' \<or> HasPrefix (TrimSpace s) minusU then fneg val
               else val)"
  by (simp add: parseOdds_def strippedText_def Let_def)

lemma stripSeqs_Nil: "stripSeqs qs [] = []"
proof -
  have "find (\<lambda>q. q \<noteq> [] \<and> prefix q []) qs = None"
    by (simp add: find_None_iff)
  then show ?thesis by (simp add: stripSeqs.simps)
qed

lemma find_spaceSeq_all:
  "\<forall>q \<in> set spaceSeqs. \<forall>s. find (\<lambda>p. p \<noteq> [] \<and> prefix p (q @ s)) spaceSeqs = Some q"
  unfolding spaceSeqs_def by simp

lemma stripSeqs_space:
  assumes "q \<in> set spaceSeqs"
  shows "stripSeqs spaceSeqs (q @ s) = stripSeqs spaceSeqs s"
proof -
  from assms find_spaceSeq_all
  have "find (\<lambda>p. p \<noteq> [] \<and> prefix p (q @ s)) spaceSeqs = Some q" by blast
  then show ?thesis by (subst stripSeqs.simps) simp
qed

lemma whitespace_TrimSpace:
  assumes "whitespace s"
  shows "TrimSpace s = []"
proof -
  from assms have "stripSeqs spaceSeqs s = []"
    by (induction rule: whitespace.induct) (simp_all add: stripSeqs_Nil stripSeqs_space)
  then show ?thesis
    by (simp add: TrimSpace_def TrimLeftSpace_def TrimRightSpace_def stripSeqs_Nil)
qed

text \<open>The bit patterns of the two values of the vectors: 150.0 and -110.0.\<close>

lemma float64_bits:
  "float64_of_int 150 = 0x4062C00000000000" "float64_of_int (- 110) = 0xC05B800000000000"
  by code_simp+

text \<open>
  Claim C2. \<open>parseOdds\<close> returns 0.0 on the empty text, 150.0 on \<open>+150\<close>, -110.0 on
  \<open>-110\<close>, -110.0 on U+2212 followed by \<open>110\<close>, and 0.0 on \<open>abc\<close>, whatever the
  number parser does outside the two fragments of \<open>ParseFloat\<close>.
\<close>

theorem parseOdds_vectors:
  "parseOdds (ParseFloat rest) '''' = 0 \<and>
   parseOdds (ParseFloat rest) ''+150'' = float64_of_int 150 \<and>
   parseOdds (ParseFloat rest) ''-110'' = float64_of_int (- 110) \<and>
   parseOdds (ParseFloat rest) (minusU @ ''110'') = float64_of_int (- 110) \<and>
   parseOdds (ParseFloat rest) ''abc'' = 0"
proof (intro conjI)
  show "parseOdds (ParseFloat rest) '''' = 0" by code_simp
  show "parseOdds (ParseFloat rest) ''+150'' = float64_of_int 150" by code_simp
  show "parseOdds (ParseFloat rest) ''-110'' = float64_of_int (- 110)" by code_simp
  show "parseOdds (ParseFloat rest) (minusU @ ''110'') = float64_of_int (- 110)" by code_simp
  show "parseOdds (ParseFloat rest) ''abc'' = 0" by code_simp
qed

theorem parseOdds_vectors_witness:
  "parseOdds sampleParseFloat ''+150'' = 0x4062C00000000000 \<and>
   parseOdds sampleParseFloat (minusU @ ''110'') = 0xC05B800000000000"
  using parseOdds_vectors [of "\<lambda>s. Inl ErrSyntax"]
  by (simp add: sampleParseFloat_def float64_bits)

text \<open>
  Claim C3, as stated: for every input, exactly one recognised prefix is trimmed and the
  magnitude is negated if and only if that prefix marks negativity, that is
  \<open>parseOdds = parseOdds_spec\<close>. It fails on \<open>+-5\<close>: the code strips the \<open>+\<close> and then
  the \<open>-\<close>, parses \<open>5\<close> and returns 5.0 (the sign was read off the \<open>+\<close>), where the
  one-prefix reading parses \<open>-5\<close> and gives -5.0.
\<close>

theorem parseOdds_double_sign_counterexample:
  "parseOdds sampleParseFloat ''+-5'' = float64_of_int 5 \<and>
   parseOdds_spec sampleParseFloat ''+-5'' = float64_of_int (- 5) \<and>
   float64_of_int 5 \<noteq> float64_of_int (- 5) \<and>
   strippedText ''+-5'' = ''5'' \<and> oneSign ''+-5'' = (False, ''-5'')"
proof (intro conjI)
  show "parseOdds sampleParseFloat ''+-5'' = float64_of_int 5" by code_simp
  show "parseOdds_spec sampleParseFloat ''+-5'' = float64_of_int (- 5)" by code_simp
  show "float64_of_int 5 \<noteq> float64_of_int (- 5)" by code_simp
  show "strippedText ''+-5'' = ''5''" by code_simp
  show "oneSign ''+-5'' = (False, ''-5'')" by code_simp
qed

lemma strippedText_oneSign:
  "\<not> doubleSign t \<Longrightarrow>
   strippedText t = snd (oneSign t) \<and>
   (HasPrefix t ''-'' \<or> HasPrefix t minusU) = fst (oneSign t)"
  by (cases t rule: list.exhaust)
     (auto simp: doubleSign_def strippedText_def oneSign_def HasPrefix_def TrimPrefix_def minusU_def
        prefix_Cons split: if_splits)

text \<open>
  Claim C3, amended: for every input whose trimmed text does not start with \<open>+-\<close>, with
  \<open>+\<close> and U+2212, or with \<open>-\<close> and U+2212, \<open>parseOdds\<close> trims the one recognised prefix
  that is present (none when the text starts with none) and negates the parsed magnitude
  if and only if that prefix is \<open>-\<close> or U+2212.
\<close>

theorem parseOdds_one_sign:
  assumes "\<not> doubleSign (TrimSpace s)"
  shows "parseOdds parseFloat s = parseOdds_spec parseFloat s"
proof -
  obtain n m where o: "oneSign (TrimSpace s) = (n, m)"
    by (cases "oneSign (TrimSpace s)")
  from strippedText_oneSign [OF assms] o
  have "strippedText (TrimSpace s) = m"
    and "(HasPrefix (TrimSpace s) ''-'' \<or> HasPrefix (TrimSpace s) minusU) = n"
    by simp_all
  then show ?thesis
    by (auto simp: parseOdds_unfold parseOdds_spec_def o split: sum.splits)
qed

theorem parseOdds_one_sign_witness:
  "\<not> doubleSign (TrimSpace '' -110 '') \<and>
   parseOdds sampleParseFloat '' -110 '' = float64_of_int (- 110) \<and>
   parseOdds_spec sampleParseFloat '' -110 '' = float64_of_int (- 110)"
proof -
  have d: "\<not> doubleSign (TrimSpace '' -110 '')" by code_simp
  have v: "parseOdds_spec sampleParseFloat '' -110 '' = float64_of_int (- 110)"
    by code_simp
  from parseOdds_one_sign [OF d, of sampleParseFloat] d v
  show ?thesis by simp
qed

text \<open>
  Claim C4. \<open>parseOdds\<close> has no error result: on a text of whitespace only it returns
  0.0, and when the number parser fails on the text left after the signs are stripped it
  returns 0.0.
\<close>

theorem parseOdds_never_fails:
  "(whitespace s \<longrightarrow> parseOdds parseFloat s = 0) \<and>
   (parseFloat (strippedText (TrimSpace s)) = Inl err \<longrightarrow> parseOdds parseFloat s = 0)"
  by (simp add: parseOdds_unfold whitespace_TrimSpace)

theorem parseOdds_never_fails_witness:
  "whitespace ''  '' \<and> parseOdds sampleParseFloat ''  '' = 0 \<and>
   sampleParseFloat (strippedText (TrimSpace ''-abc'')) = Inl ErrSyntax \<and>
   parseOdds sampleParseFloat ''-abc'' = 0"
proof -
  have sp: "'' '' \<in> set spaceSeqs" by (simp add: spaceSeqs_def)
  have w: "whitespace ('' '' @ '' '' @ [])"
    by (intro whitespace.space sp whitespace.empty)
  have e: "sampleParseFloat (strippedText (TrimSpace ''-abc'')) = Inl ErrSyntax"
    by code_simp
  from parseOdds_never_fails [of "''  ''" sampleParseFloat ErrSyntax]
       parseOdds_never_fails [of "''-abc''" sampleParseFloat ErrSyntax] w e
  show ?thesis by simp
qed

section \<open>Properties of parseMarkets\<close>

lemma fold_append_map: "fold (\<lambda>x acc. acc @ [f x]) xs acc = acc @ map f xs"
  by (induction xs arbitrary: acc) simp_all

lemma gameWrapperMarkets_unfold:
  "gameWrapperMarkets q pf w ms =
     ms @ (case teamNames q w of (teamA, teamB) \<Rightarrow>
             if teamA = [] \<or> teamB = [] then []
             else map (buttonMarket q pf (teamA @ '' vs '' @ teamB))
                    (Each (Find q w ''.cb-market__button'')))"
  by (simp add: gameWrapperMarkets_def fold_append_map split: prod.splits)

lemma gameWrapperMarkets_append:
  "gameWrapperMarkets q pf w ms = ms @ gameWrapperMarkets q pf w []"
  by (simp add: gameWrapperMarkets_unfold [of q pf w ms] gameWrapperMarkets_unfold [of q pf w "[]"])

lemma fold_gameWrappers:
  "fold (\<lambda>(i, w). gameWrapperMarkets q pf w) (enumerate k ws) ms =
     ms @ concat (map (\<lambda>w. gameWrapperMarkets q pf w []) ws)"
proof (induction ws arbitrary: k ms)
  case Nil
  then show ?case by simp
next
  case (Cons w ws)
  show ?case
    by (simp add: Cons.IH gameWrapperMarkets_append [of q pf w ms])
qed

lemma parseMarkets_concat:
  "NewDocumentFromReader q html = Inr doc \<Longrightarrow>
   parseMarkets q pf html lg =
     (concat (map (\<lambda>n. gameWrapperMarkets q pf [n] []) (Find q doc ''.cb-market__template'')), lg)"
  by (simp add: parseMarkets_def Each_def fold_gameWrappers map_map comp_def)

lemma fold_teamLabel_ge2: "2 \<le> k \<Longrightarrow> fold (teamLabel q) (enumerate k xs) t = t"
proof (induction xs arbitrary: k t)
  case Nil
  then show ?case by simp
next
  case (Cons x xs)
  then show ?case by (cases t) (simp add: teamLabel_def)
qed

lemma teamNames_shape:
  "teamNames q w =
     (case Find q w ''.cb-market__label-inner'' of
        [] \<Rightarrow> ([], [])
      | [a] \<Rightarrow> (TrimSpace (Text q [a]), [])
      | a # b # r \<Rightarrow> (TrimSpace (Text q [a]), TrimSpace (Text q [b])))"
  by (simp add: teamNames_def Each_def teamLabel_def fold_teamLabel_ge2 split: list.splits)

lemma teamNames_two:
  assumes "2 \<le> length (Find q w ''.cb-market__label-inner'')"
  shows "teamNames q w =
     (TrimSpace (Text q [Find q w ''.cb-market__label-inner'' ! 0]),
      TrimSpace (Text q [Find q w ''.cb-market__label-inner'' ! 1]))"
proof -
  from assms obtain a b r where "Find q w ''.cb-market__label-inner'' = a # b # r"
    by (cases "Find q w ''.cb-market__label-inner''" rule: remdups_adj.cases) auto
  then show ?thesis by (simp add: teamNames_shape)
qed

lemma teamNames_few:
  assumes "length (Find q w ''.cb-market__label-inner'') < 2"
  shows "fst (teamNames q w) = [] \<or> snd (teamNames q w) = []"
proof -
  from assms have "Find q w ''.cb-market__label-inner'' = [] \<or>
      (\<exists>a. Find q w ''.cb-market__label-inner'' = [a])"
    by (cases "Find q w ''.cb-market__label-inner''" rule: remdups_adj.cases) auto
  then show ?thesis by (auto simp: teamNames_shape)
qed

lemma nth_gameWrapperMarkets:
  assumes "teamNames q w = (teamA, teamB)" "teamA \<noteq> []" "teamB \<noteq> []"
    and "j < length (Find q w ''.cb-market__button'')"
  shows "gameWrapperMarkets q pf w [] ! j =
     buttonMarket q pf (teamA @ '' vs '' @ teamB) (j, [Find q w ''.cb-market__button'' ! j])"
  using assms by (simp add: gameWrapperMarkets_unfold Each_def nth_enumerate_eq)

lemma buttonMarket_fields:
  "BetType (buttonMarket q pf g (j, b)) = betTypes ! (j mod 3)"
  "Side (buttonMarket q pf g (j, b)) = (if j < 3 then ''over'' else ''under'')"
  "Game (buttonMarket q pf g (j, b)) = g"
  by (simp_all add: buttonMarket_def Let_def)

lemma length_gameWrapperMarkets:
  assumes "teamNames q w = (teamA, teamB)" "teamA \<noteq> []" "teamB \<noteq> []"
  shows "length (gameWrapperMarkets q pf w []) = length (Find q w ''.cb-market__button'')"
  using assms by (simp add: gameWrapperMarkets_unfold Each_def)

lemma six_sides_betTypes:
  assumes "length xs = 6"
    and "\<And>j. j < 6 \<Longrightarrow> f (xs ! j) = (if j < 3 then ''over'' else ''under'', betTypes ! (j mod 3))"
  shows "map f xs =
     [(''over'', ''Spread''), (''over'', ''Total''), (''over'', ''Moneyline''),
      (''under'', ''Spread''), (''under'', ''Total''), (''under'', ''Moneyline'')]"
proof -
  from assms(1) obtain a b c d e g where xs: "xs = [a, b, c, d, e, g]"
    by (auto simp: length_Suc_conv eval_nat_numeral)
  from assms(2) [of 0] assms(2) [of 1] assms(2) [of 2] assms(2) [of 3] assms(2) [of 4] assms(2) [of 5]
  show ?thesis by (simp add: xs betTypes_def)
qed

text \<open>
  Claim C1. In a game wrapper that is not skipped, every button gives one market, and the
  market of the button at index \<open>j\<close> has the bet type \<open>betTypes ! (j mod 3)\<close> and the
  side \<open>over\<close> if \<open>j < 3\<close> and \<open>under\<close> otherwise; with exactly six buttons the sides
  and bet types are over and under, each with Spread, Total, Moneyline.
\<close>

theorem button_side_and_betType:
  assumes "teamNames q w = (teamA, teamB)" and "teamA \<noteq> []" and "teamB \<noteq> []"
    and "j < length (Find q w ''.cb-market__button'')"
  shows "length (gameWrapperMarkets q pf w []) = length (Find q w ''.cb-market__button'') \<and>
     BetType (gameWrapperMarkets q pf w [] ! j) = betTypes ! (j mod 3) \<and>
     Side (gameWrapperMarkets q pf w [] ! j) = (if j < 3 then ''over'' else ''under'') \<and>
     (length (Find q w ''.cb-market__button'') = 6 \<longrightarrow>
        map (\<lambda>m. (Side m, BetType m)) (gameWrapperMarkets q pf w []) =
          [(''over'', ''Spread''), (''over'', ''Total''), (''over'', ''Moneyline''),
           (''under'', ''Spread''), (''under'', ''Total''), (''under'', ''Moneyline'')])"
proof (intro conjI impI)
  note t = assms(1-3)
  show len: "length (gameWrapperMarkets q pf w []) = length (Find q w ''.cb-market__button'')"
    by (rule length_gameWrapperMarkets [OF t])
  show "BetType (gameWrapperMarkets q pf w [] ! j) = betTypes ! (j mod 3)"
    by (simp add: nth_gameWrapperMarkets [OF t assms(4)] buttonMarket_fields)
  show "Side (gameWrapperMarkets q pf w [] ! j) = (if j < 3 then ''over'' else ''under'')"
    by (simp add: nth_gameWrapperMarkets [OF t assms(4)] buttonMarket_fields)
  assume six: "length (Find q w ''.cb-market__button'') = 6"
  show "map (\<lambda>m. (Side m, BetType m)) (gameWrapperMarkets q pf w []) =
          [(''over'', ''Spread''), (''over'', ''Total''), (''over'', ''Moneyline''),
           (''under'', ''Spread''), (''under'', ''Total''), (''under'', ''Moneyline'')]"
  proof (rule six_sides_betTypes)
    show "length (gameWrapperMarkets q pf w []) = 6" using len six by simp
  next
    fix i :: nat assume "i < 6"
    with six have "i < length (Find q w ''.cb-market__button'')" by simp
    from nth_gameWrapperMarkets [OF t this]
    show "(Side (gameWrapperMarkets q pf w [] ! i), BetType (gameWrapperMarkets q pf w [] ! i)) =
        (if i < 3 then ''over'' else ''under'', betTypes ! (i mod 3))"
      by (simp add: buttonMarket_fields)
  qed
qed

lemma sample_teamNames: "teamNames sampleQuery [sampleGame] = (''Jets'', ''Bills'')"
  by code_simp

lemma sample_buttons: "length (Find sampleQuery [sampleGame] ''.cb-market__button'') = 6"
  by code_simp

theorem button_side_and_betType_witness:
  "teamNames sampleQuery [sampleGame] = (''Jets'', ''Bills'') \<and>
   length (gameWrapperMarkets sampleQuery sampleParseFloat [sampleGame] []) = 6 \<and>
   BetType (gameWrapperMarkets sampleQuery sampleParseFloat [sampleGame] [] ! 4) = ''Total'' \<and>
   Side (gameWrapperMarkets sampleQuery sampleParseFloat [sampleGame] [] ! 4) = ''under'' \<and>
   map (\<lambda>m. (Side m, BetType m)) (gameWrapperMarkets sampleQuery sampleParseFloat [sampleGame] []) =
     [(''over'', ''Spread''), (''over'', ''Total''), (''over'', ''Moneyline''),
      (''under'', ''Spread''), (''under'', ''Total''), (''under'', ''Moneyline'')]"
proof -
  have j: "4 < length (Find sampleQuery [sampleGame] ''.cb-market__button'')"
    by (simp add: sample_buttons)
  from button_side_and_betType [OF sample_teamNames _ _ j, of sampleParseFloat]
  show ?thesis by (simp add: sample_teamNames sample_buttons betTypes_def)
qed

lemma take2_shape:
  "take 2 xs = (case xs of [] \<Rightarrow> [] | [a] \<Rightarrow> [a] | a # b # r \<Rightarrow> [a, b])"
  by (simp add: numeral_2_eq_2 split: list.splits)

lemma teamNames_take2:
  assumes "take 2 (Find q w ''.cb-market__label-inner'') = take 2 (Find q w' ''.cb-market__label-inner'')"
  shows "teamNames q w = teamNames q w'"
  using assms
  by (auto simp: teamNames_shape take2_shape split: list.splits)

lemma few_labels_no_markets:
  assumes "length (Find q w ''.cb-market__label-inner'') < 2"
  shows "gameWrapperMarkets q pf w ms = ms"
  using teamNames_few [OF assms]
  by (cases "teamNames q w") (auto simp: gameWrapperMarkets_unfold)

text \<open>
  Claim C5. A game wrapper with fewer than two team labels is skipped: it adds no market.
  Labels after the second are ignored: two wrappers with the same first two labels and
  the same buttons add the same markets.
\<close>

theorem few_labels_skipped:
  "(length (Find q w ''.cb-market__label-inner'') < 2 \<longrightarrow> gameWrapperMarkets q pf w ms = ms) \<and>
   (take 2 (Find q w ''.cb-market__label-inner'') = take 2 (Find q w' ''.cb-market__label-inner'') \<and>
    Find q w ''.cb-market__button'' = Find q w' ''.cb-market__button'' \<longrightarrow>
      gameWrapperMarkets q pf w ms = gameWrapperMarkets q pf w' ms)"
proof (intro conjI impI)
  assume "length (Find q w ''.cb-market__label-inner'') < 2"
  then show "gameWrapperMarkets q pf w ms = ms"
    by (rule few_labels_no_markets)
next
  assume a: "take 2 (Find q w ''.cb-market__label-inner'') = take 2 (Find q w' ''.cb-market__label-inner'') \<and>
    Find q w ''.cb-market__button'' = Find q w' ''.cb-market__button''"
  then have t: "teamNames q w = teamNames q w'" by (intro teamNames_take2) simp
  from a have b: "Find q w ''.cb-market__button'' = Find q w' ''.cb-market__button''" by simp
  show "gameWrapperMarkets q pf w ms = gameWrapperMarkets q pf w' ms"
    unfolding gameWrapperMarkets_def t b ..
qed

lemma sample_one_label:
  "length (Find sampleQuery [sampleOneLabel] ''.cb-market__label-inner'') = 1"
  "length (Find sampleQuery [sampleOneLabel] ''.cb-market__button'') = 6"
  by code_simp+

lemma sample_three_labels:
  "length (Find sampleQuery [sampleThreeLabels] ''.cb-market__label-inner'') = 3"
  "take 2 (Find sampleQuery [sampleThreeLabels] ''.cb-market__label-inner'') =
     take 2 (Find sampleQuery [sampleGame] ''.cb-market__label-inner'')"
  "Find sampleQuery [sampleThreeLabels] ''.cb-market__button'' =
     Find sampleQuery [sampleGame] ''.cb-market__button''"
  by code_simp+


lemma sample_six_markets:
  "length (gameWrapperMarkets sampleQuery sampleParseFloat [sampleGame] []) = 6"
  using length_gameWrapperMarkets [OF sample_teamNames, of sampleParseFloat] sample_buttons
  by simp

theorem few_labels_skipped_witness:
  "length (Find sampleQuery [sampleOneLabel] ''.cb-market__label-inner'') < 2 \<and>
   length (Find sampleQuery [sampleOneLabel] ''.cb-market__button'') = 6 \<and>
   gameWrapperMarkets sampleQuery sampleParseFloat [sampleOneLabel] [] = [] \<and>
   length (Find sampleQuery [sampleThreeLabels] ''.cb-market__label-inner'') = 3 \<and>
   gameWrapperMarkets sampleQuery sampleParseFloat [sampleThreeLabels] [] =
     gameWrapperMarkets sampleQuery sampleParseFloat [sampleGame] [] \<and>
   length (gameWrapperMarkets sampleQuery sampleParseFloat [sampleGame] []) = 6"
  using few_labels_skipped [of sampleQuery "[sampleOneLabel]" sampleParseFloat "[]" "[sampleOneLabel]"]
    few_labels_skipped [of sampleQuery "[sampleThreeLabels]" sampleParseFloat "[]" "[sampleGame]"]
    sample_one_label sample_three_labels sample_six_markets
  by simp

text \<open>
  Claim C7. In a game wrapper with at least two team labels, every market has the game
  \<open>teamA vs teamB\<close>, the trimmed texts of the first and the second label.
\<close>

theorem game_is_teamA_vs_teamB:
  assumes "2 \<le> length (Find q w ''.cb-market__label-inner'')"
    and "m \<in> set (gameWrapperMarkets q pf w [])"
  shows "Game m =
     TrimSpace (Text q [Find q w ''.cb-market__label-inner'' ! 0]) @ '' vs '' @
     TrimSpace (Text q [Find q w ''.cb-market__label-inner'' ! 1])"
  using assms(2)
  by (auto simp: gameWrapperMarkets_unfold teamNames_two [OF assms(1)] buttonMarket_fields
      split: if_splits)

lemma sample_labels:
  "length (Find sampleQuery [sampleGame] ''.cb-market__label-inner'') = 2"
  "Text sampleQuery [Find sampleQuery [sampleGame] ''.cb-market__label-inner'' ! 0] = '' Jets ''"
  "Text sampleQuery [Find sampleQuery [sampleGame] ''.cb-market__label-inner'' ! 1] = ''Bills''"
  "TrimSpace '' Jets '' = ''Jets''"
  "TrimSpace ''Bills'' = ''Bills''"
  by code_simp+

theorem game_is_teamA_vs_teamB_witness:
  "2 \<le> length (Find sampleQuery [sampleGame] ''.cb-market__label-inner'') \<and>
   gameWrapperMarkets sampleQuery sampleParseFloat [sampleGame] [] ! 2 \<in>
     set (gameWrapperMarkets sampleQuery sampleParseFloat [sampleGame] []) \<and>
   Text sampleQuery [Find sampleQuery [sampleGame] ''.cb-market__label-inner'' ! 0] = '' Jets '' \<and>
   Game (gameWrapperMarkets sampleQuery sampleParseFloat [sampleGame] [] ! 2) = ''Jets vs Bills''"
proof -
  have two: "2 \<le> length (Find sampleQuery [sampleGame] ''.cb-market__label-inner'')"
    by (simp add: sample_labels)
  have mem: "gameWrapperMarkets sampleQuery sampleParseFloat [sampleGame] [] ! 2 \<in>
     set (gameWrapperMarkets sampleQuery sampleParseFloat [sampleGame] [])"
    by (simp add: sample_six_markets)
  from game_is_teamA_vs_teamB [OF two mem] two mem
  show ?thesis by (simp add: sample_labels del: One_nat_def)
qed

text \<open>
  Claim C10. A game wrapper whose first or second team label is empty once trimmed is
  skipped, however many labels it has.
\<close>

theorem blank_label_skipped:
  assumes "2 \<le> length (Find q w ''.cb-market__label-inner'')"
    and "TrimSpace (Text q [Find q w ''.cb-market__label-inner'' ! 0]) = [] \<or>
         TrimSpace (Text q [Find q w ''.cb-market__label-inner'' ! 1]) = []"
  shows "gameWrapperMarkets q pf w ms = ms"
  using assms(2) by (auto simp: gameWrapperMarkets_unfold teamNames_two [OF assms(1)])

lemma sample_blank_label:
  "length (Find sampleQuery [sampleBlankLabel] ''.cb-market__label-inner'') = 3"
  "Text sampleQuery [Find sampleQuery [sampleBlankLabel] ''.cb-market__label-inner'' ! 1] = ''  ''"
  "TrimSpace ''  '' = []"
  "length (Find sampleQuery [sampleBlankLabel] ''.cb-market__button'') = 6"
  by code_simp+

theorem blank_label_skipped_witness:
  "length (Find sampleQuery [sampleBlankLabel] ''.cb-market__label-inner'') = 3 \<and>
   Text sampleQuery [Find sampleQuery [sampleBlankLabel] ''.cb-market__label-inner'' ! 1] = ''  '' \<and>
   length (Find sampleQuery [sampleBlankLabel] ''.cb-market__button'') = 6 \<and>
   gameWrapperMarkets sampleQuery sampleParseFloat [sampleBlankLabel] [] = []"
proof -
  have two: "2 \<le> length (Find sampleQuery [sampleBlankLabel] ''.cb-market__label-inner'')"
    by (simp add: sample_blank_label)
  have blank: "TrimSpace (Text sampleQuery [Find sampleQuery [sampleBlankLabel] ''.cb-market__label-inner'' ! 0]) = [] \<or>
     TrimSpace (Text sampleQuery [Find sampleQuery [sampleBlankLabel] ''.cb-market__label-inner'' ! 1]) = []"
    by (simp add: sample_blank_label del: One_nat_def)
  from blank_label_skipped [OF two blank, of sampleParseFloat "[]"]
  show ?thesis by (simp add: sample_blank_label del: One_nat_def)
qed

text \<open>
  Claim C6. When the markup cannot be read as a document, \<open>parseMarkets\<close> logs the error
  and returns no market; on a document without game wrapper it returns no market either
  (and logs nothing): the returned markets are the same in both cases.
\<close>

theorem unreadable_or_no_wrappers:
  "(NewDocumentFromReader q html = Inl err \<longrightarrow>
      parseMarkets q pf html logged = ([], logged @ [''Error parsing HTML: '' @ err])) \<and>
   (NewDocumentFromReader q html = Inr doc \<and> Find q doc ''.cb-market__template'' = [] \<longrightarrow>
      parseMarkets q pf html logged = ([], logged))"
  by (simp add: parseMarkets_def Each_def)

lemma sample_documents:
  "NewDocumentFromReader sampleQuery ''<html'' = Inl ''unreadable''"
  "NewDocumentFromReader sampleQuery ''nogames'' = Inr [Element [] [label ''Jets'']]"
  "Find sampleQuery [Element [] [label ''Jets'']] ''.cb-market__template'' = []"
  "NewDocumentFromReader sampleQuery ''game'' = Inr [Element [] [sampleGame]]"
  "Find sampleQuery [Element [] [sampleGame]] ''.cb-market__template'' = [sampleGame]"
  by code_simp+

theorem unreadable_or_no_wrappers_witness:
  "NewDocumentFromReader sampleQuery ''<html'' = Inl ''unreadable'' \<and>
   parseMarkets sampleQuery sampleParseFloat ''<html'' [] = ([], [''Error parsing HTML: unreadable'']) \<and>
   NewDocumentFromReader sampleQuery ''nogames'' = Inr [Element [] [label ''Jets'']] \<and>
   Find sampleQuery [Element [] [label ''Jets'']] ''.cb-market__template'' = [] \<and>
   parseMarkets sampleQuery sampleParseFloat ''nogames'' [] = ([], [])"
  using unreadable_or_no_wrappers [of sampleQuery "''<html''" "''unreadable''" sampleParseFloat "[]"]
    unreadable_or_no_wrappers [of sampleQuery "''nogames''" _ sampleParseFloat "[]" "[Element [] [label ''Jets'']]"]
  by (simp add: sample_documents)

text \<open>
  Claim C8. The markets that \<open>parseMarkets\<close> returns are a function of the markup: they do
  not depend on the log it is given, and a second run on the same markup, after the
  first, returns the same markets in the same order. (The library's parser and
  selections are functions of the markup here.)
\<close>

theorem parseMarkets_repeatable:
  "fst (parseMarkets q pf html logged') = fst (parseMarkets q pf html logged) \<and>
   fst (parseMarkets q pf html (snd (parseMarkets q pf html logged))) =
     fst (parseMarkets q pf html logged)"
  by (simp add: parseMarkets_def split: sum.splits)

theorem parseMarkets_repeatable_witness:
  "length (fst (parseMarkets sampleQuery sampleParseFloat ''game'' [])) = 6 \<and>
   fst (parseMarkets sampleQuery sampleParseFloat ''game''
          (snd (parseMarkets sampleQuery sampleParseFloat ''game'' []))) =
     fst (parseMarkets sampleQuery sampleParseFloat ''game'' [])"
  using parseMarkets_repeatable [of sampleQuery sampleParseFloat "''game''" "[]" "[]"]
  by (simp add: parseMarkets_concat [OF sample_documents(4)] sample_documents(5) sample_six_markets)

section \<open>Properties of printMarkets\<close>

lemma fold_addMarket:
  "fold addMarket markets gm game =
   (if filter (\<lambda>m. Game m = game) markets = [] then gm game
    else Some ((case gm game of None \<Rightarrow> [] | Some ms \<Rightarrow> ms) @
               filter (\<lambda>m. Game m = game) markets))"
proof (induction markets arbitrary: gm)
  case Nil
  then show ?case by simp
next
  case (Cons m markets)
  have am: "addMarket m gm game =
      (if game = Game m then Some ((case gm game of None \<Rightarrow> [] | Some ms \<Rightarrow> ms) @ [m])
       else gm game)"
    by (simp add: addMarket_def)
  show ?case by (auto simp: Cons.IH am)
qed

lemma groupByGame_filter:
  "groupByGame markets game =
     (if game \<in> Game ` set markets then Some (filter (\<lambda>m. Game m = game) markets) else None)"
  by (auto simp: groupByGame_def fold_addMarket filter_empty_conv)

lemma dom_groupByGame: "dom (groupByGame markets) = Game ` set markets"
  by (auto simp: dom_def groupByGame_filter)

lemma printMarkets_games:
  assumes "markets \<noteq> []" and "set keys \<subseteq> Game ` set markets"
  shows "printMarkets keys markets =
     FoundMarkets (length markets) #
     concat (map (\<lambda>game.
       [GameLine game, Rule (length game)] @
       map marketRow (filter (\<lambda>m. Game m = game) markets) @ [EmptyLine]) keys)"
proof -
  have "(case groupByGame markets game of
           None \<Rightarrow> []
         | Some gameMarkets \<Rightarrow>
             [GameLine game, Rule (length game)] @ map marketRow gameMarkets @ [EmptyLine]) =
        [GameLine game, Rule (length game)] @
        map marketRow (filter (\<lambda>m. Game m = game) markets) @ [EmptyLine]"
    if "game \<in> set keys" for game
    using that assms(2) by (auto simp: groupByGame_filter)
  then show ?thesis
    using assms(1) by (simp add: printMarkets_def Let_def cong: map_cong)
qed

lemma no_markets_line:
  "LogPrintln t \<in> set (printMarkets keys markets) \<longleftrightarrow> markets = [] \<and> t = ''No markets found''"
  by (auto simp: printMarkets_def Let_def marketRow_def split: option.splits if_splits)

text \<open>
  Claim C9. The report has the line \<open>No markets found\<close> if and only if there is no
  market. Otherwise, for the order \<open>keys\<close> in which the games of the map are visited, it
  is the count followed, game by game, by the game's name, the dashes, one line for each
  market of that game in the order of extraction, and an empty line; a market's line has
  the bet type, the side and the odds, and the point value only when \<open>Line\<close> differs from
  0.
\<close>

theorem report_of_markets:
  "(LogPrintln ''No markets found'' \<in> set (printMarkets keys markets) \<longleftrightarrow> markets = []) \<and>
   (markets \<noteq> [] \<and> distinct keys \<and> set keys = dom (groupByGame markets) \<longrightarrow>
      set keys = Game ` set markets \<and>
      printMarkets keys markets =
        FoundMarkets (length markets) #
        concat (map (\<lambda>game.
          [GameLine game, Rule (length game)] @
          map (\<lambda>m. if fne0 (Line m) then MarketLine (BetType m) (Side m) (Line m) (Odds m)
                    else MarketNoLine (BetType m) (Side m) (Odds m))
            (filter (\<lambda>m. Game m = game) markets) @
          [EmptyLine]) keys))"
proof (intro conjI impI)
  show "LogPrintln ''No markets found'' \<in> set (printMarkets keys markets) \<longleftrightarrow> markets = []"
    by (simp add: no_markets_line)
next
  assume a: "markets \<noteq> [] \<and> distinct keys \<and> set keys = dom (groupByGame markets)"
  then show k: "set keys = Game ` set markets" by (simp add: dom_groupByGame)
  have row: "marketRow = (\<lambda>m. if fne0 (Line m) then MarketLine (BetType m) (Side m) (Line m) (Odds m)
                    else MarketNoLine (BetType m) (Side m) (Odds m))"
    by (rule ext) (simp add: marketRow_def)
  from a k have "set keys \<subseteq> Game ` set markets" by simp
  from printMarkets_games [OF _ this] a
  show "printMarkets keys markets =
        FoundMarkets (length markets) #
        concat (map (\<lambda>game.
          [GameLine game, Rule (length game)] @
          map (\<lambda>m. if fne0 (Line m) then MarketLine (BetType m) (Side m) (Line m) (Odds m)
                    else MarketNoLine (BetType m) (Side m) (Odds m))
            (filter (\<lambda>m. Game m = game) markets) @
          [EmptyLine]) keys)"
    by (simp add: row)
qed


lemma sample_lines:
  "fne0 (float64_of_int 45)" "\<not> fne0 0" "\<not> fne0 (fneg 0)"
  by code_simp+

theorem report_of_markets_witness:
  "LogPrintln ''No markets found'' \<in> set (printMarkets [] []) \<and>
   sampleMarkets \<noteq> [] \<and>
   set [''Rams vs Lions'', ''Jets vs Bills''] = dom (groupByGame sampleMarkets) \<and>
   printMarkets [''Rams vs Lions'', ''Jets vs Bills''] sampleMarkets =
     [FoundMarkets 3,
      GameLine ''Rams vs Lions'', Rule 13,
      MarketNoLine ''Moneyline'' ''over'' (float64_of_int 150),
      EmptyLine,
      GameLine ''Jets vs Bills'', Rule 13,
      MarketLine ''Total'' ''over'' (float64_of_int 45) (float64_of_int (- 110)),
      MarketNoLine ''Moneyline'' ''under'' (float64_of_int (- 105)),
      EmptyLine]"
proof -
  have keys: "set [''Rams vs Lions'', ''Jets vs Bills''] = dom (groupByGame sampleMarkets)"
    by (auto simp: dom_groupByGame sampleMarkets_def)
  have ne: "sampleMarkets \<noteq> []"
    by (simp add: sampleMarkets_def)
  from report_of_markets [of "[]" "[]"]
    report_of_markets [of "[''Rams vs Lions'', ''Jets vs Bills'']" sampleMarkets] keys ne
  show ?thesis by (simp add: sampleMarkets_def sample_lines)
qed

end
